theory Spec2Isabelle
  imports Complex_Main "HOL-Library.Sublist"
begin

section \<open>JavaScript numbers\<close>

text \<open>
  A JavaScript number is either not-a-number or a finite value.  A finite double is read as
  the real number it denotes and the arithmetic on finite values is exact: rounding to 53
  bits, overflow, the infinities and the sign of zero are outside this model.  Where
  JavaScript would produce an infinity (a division by zero) the model yields \<open>NaN\<close>; every
  division of the modelled code has a divisor that is checked or is the literal 10.
\<close>

datatype number = NaN | Num real

fun isNaN :: "number \<Rightarrow> bool" where
  "isNaN NaN = True"
| "isNaN (Num x) = False"

text \<open>The relational operators \<open><\<close>, \<open><=\<close> and \<open>===\<close>: false as soon as an operand is NaN.\<close>

fun num_lt :: "number \<Rightarrow> number \<Rightarrow> bool" where
  "num_lt (Num x) (Num y) = (x < y)"
| "num_lt a b = False"

fun num_le :: "number \<Rightarrow> number \<Rightarrow> bool" where
  "num_le (Num x) (Num y) = (x \<le> y)"
| "num_le a b = False"

fun num_gt :: "number \<Rightarrow> number \<Rightarrow> bool" where
  "num_gt (Num x) (Num y) = (y < x)"
| "num_gt a b = False"





fun num_div :: "number \<Rightarrow> number \<Rightarrow> number" where
  "num_div (Num x) (Num y) = (if y = 0 then NaN else Num (x / y))"
| "num_div a b = NaN"




section \<open>JavaScript dates\<close>

text \<open>
  A \<open>Date\<close> holds a time value in milliseconds since the epoch.  The local zone is taken
  to have a constant offset, which shifts every local reading alike, so the model works
  with one time value for both the local and the universal reading.  It leaves out the
  invalid date and the clipping of time values beyond 8.64e15 ms, and follows the abstract
  operations of ECMAScript for the calendar: \<open>Day\<close>, \<open>TimeWithinDay\<close>, \<open>DaysInYear\<close>,
  \<open>DayFromYear\<close>, \<open>YearFromTime\<close>, \<open>InLeapYear\<close>, \<open>MonthFromTime\<close>, \<open>DateFromTime\<close>,
  \<open>MakeDay\<close> and \<open>MakeDate\<close>.  Years, months and days of the month are integers.
\<close>

datatype Date = Date (getTime: int)

definition msPerDay :: int where
  "msPerDay = 86400000"

definition Day :: "int \<Rightarrow> int" where
  "Day t = t div msPerDay"


definition DaysInYear :: "int \<Rightarrow> int" where
  "DaysInYear y =
     (if y mod 4 \<noteq> 0 then 365
      else if y mod 100 \<noteq> 0 then 366
      else if y mod 400 \<noteq> 0 then 365
      else 366)"

definition DayFromYear :: "int \<Rightarrow> int" where
  "DayFromYear y =
     365 * (y - 1970) + (y - 1969) div 4 - (y - 1901) div 100 + (y - 1601) div 400"

lemma div_step:
  fixes a k :: int
  assumes "0 < k"
  shows "(a + 1) div k = a div k + (if k dvd a + 1 then 1 else 0)"
proof -
  define q where "q = a div k"
  define r where "r = a mod k"
  have a: "a = k * q + r" and r0: "0 \<le> r" and rk: "r < k"
    using assms by (simp_all add: q_def r_def)
  show ?thesis
  proof (cases "r + 1 = k")
    case True
    then have "a + 1 = k * (q + 1)" using a by (simp add: algebra_simps)
    then show ?thesis using assms by (simp add: q_def)
  next
    case False
    then have lt: "r + 1 < k" using rk by simp
    have e: "a + 1 = k * q + (r + 1)" using a by simp
    have d: "(a + 1) div k = q"
      by (rule int_div_pos_eq [OF e]) (use r0 lt in simp_all)
    have m: "(a + 1) mod k = r + 1"
      by (rule int_mod_pos_eq [OF e]) (use r0 lt in simp_all)
    have "\<not> k dvd a + 1" using m r0 by (simp add: dvd_eq_mod_eq_0)
    then show ?thesis using d by (simp add: q_def)
  qed
qed

lemma DayFromYear_Suc: "DayFromYear (y + 1) = DayFromYear y + DaysInYear y"
proof -
  have e4: "y - 1969 + 1 = y - 1968" and e100: "y - 1901 + 1 = y - 1900"
    and e400: "y - 1601 + 1 = y - 1600"
    by simp_all
  have a: "(y - 1968) div 4 = (y - 1969) div 4 + (if 4 dvd y then 1 else 0)"
    using div_step [of 4 "y - 1969"] dvd_diff_left_iff [of 4 1968 y]
    unfolding e4 by simp
  have b: "(y - 1900) div 100 = (y - 1901) div 100 + (if 100 dvd y then 1 else 0)"
    using div_step [of 100 "y - 1901"] dvd_diff_left_iff [of 100 1900 y]
    unfolding e100 by simp
  have c: "(y - 1600) div 400 = (y - 1601) div 400 + (if 400 dvd y then 1 else 0)"
    using div_step [of 400 "y - 1601"] dvd_diff_left_iff [of 400 1600 y]
    unfolding e400 by simp
  have d1: "400 dvd y \<Longrightarrow> 100 dvd y"
    by (rule dvd_trans [of 100 400]) simp_all
  have d2: "100 dvd y \<Longrightarrow> 4 dvd y"
    by (rule dvd_trans [of 4 100]) simp_all
  define A where "A = (y - 1969) div 4"
  define B where "B = (y - 1901) div 100"
  define C where "C = (y - 1601) div 400"
  have l: "DayFromYear (y + 1) =
      365 * (y - 1969) + (y - 1968) div 4 - (y - 1900) div 100 + (y - 1600) div 400"
    by (simp add: DayFromYear_def)
  have r: "DayFromYear y = 365 * (y - 1970) + A - B + C"
    by (simp only: DayFromYear_def A_def B_def C_def)
  have l': "DayFromYear (y + 1) =
      365 * (y - 1969) + (A + (if 4 dvd y then 1 else 0)) - (B + (if 100 dvd y then 1 else 0))
        + (C + (if 400 dvd y then 1 else 0))"
    by (simp only: l a b c A_def B_def C_def)
  show ?thesis
    unfolding l' r DaysInYear_def mod_eq_0_iff_dvd
    using d1 d2 by auto
qed

lemma DayFromYear_step: "DayFromYear y + 365 \<le> DayFromYear (y + 1)"
  unfolding DayFromYear_Suc DaysInYear_def by simp

text \<open>
  \<open>YearFromTime\<close> is the largest year whose first day is not after the day of \<open>t\<close>.
  The search starts from a year that is not after it and climbs.
\<close>

function year_search :: "int \<Rightarrow> int \<Rightarrow> int" where
  "year_search d y = (if DayFromYear (y + 1) \<le> d then year_search d (y + 1) else y)"
  by pat_completeness auto
termination
proof (relation "measure (\<lambda>(d, y). nat (d + 1 - DayFromYear (y + 1)))")
  show "wf (measure (\<lambda>(d, y). nat (d + 1 - DayFromYear (y + 1))))"
    by simp
next
  fix d y :: int
  assume "DayFromYear (y + 1) \<le> d"
  moreover have "DayFromYear (y + 1) + 365 \<le> DayFromYear (y + 1 + 1)"
    by (rule DayFromYear_step)
  ultimately show "((d, y + 1), (d, y)) \<in> measure (\<lambda>(d, y). nat (d + 1 - DayFromYear (y + 1)))"
    by simp
qed

definition YearFromTime :: "int \<Rightarrow> int" where
  "YearFromTime t =
     (let d = Day t in year_search d (1970 + (if 0 \<le> d then d div 366 else d div 365)))"

definition DayWithinYear :: "int \<Rightarrow> int" where
  "DayWithinYear t = Day t - DayFromYear (YearFromTime t)"

definition InLeapYear :: "int \<Rightarrow> int" where
  "InLeapYear t = (if DaysInYear (YearFromTime t) = 366 then 1 else 0)"

definition MonthFromTime :: "int \<Rightarrow> int" where
  "MonthFromTime t =
     (let d = DayWithinYear t; l = InLeapYear t in
      if d < 31 then 0
      else if d < 59 + l then 1
      else if d < 90 + l then 2
      else if d < 120 + l then 3
      else if d < 151 + l then 4
      else if d < 181 + l then 5
      else if d < 212 + l then 6
      else if d < 243 + l then 7
      else if d < 273 + l then 8
      else if d < 304 + l then 9
      else if d < 334 + l then 10
      else 11)"

text \<open>The number of days of the year before month \<open>m\<close> (0 to 11), \<open>l\<close> being 1 in a leap year.\<close>

definition daysBeforeMonth :: "int \<Rightarrow> int \<Rightarrow> int" where
  "daysBeforeMonth m l =
     (if m = 0 then 0
      else if m = 1 then 31
      else if m = 2 then 59 + l
      else if m = 3 then 90 + l
      else if m = 4 then 120 + l
      else if m = 5 then 151 + l
      else if m = 6 then 181 + l
      else if m = 7 then 212 + l
      else if m = 8 then 243 + l
      else if m = 9 then 273 + l
      else if m = 10 then 304 + l
      else 334 + l)"

definition DateFromTime :: "int \<Rightarrow> int" where
  "DateFromTime t =
     (let d = DayWithinYear t; l = InLeapYear t; m = MonthFromTime t in
      if m = 0 then d + 1
      else if m = 1 then d - 30
      else if m = 2 then d - 58 - l
      else if m = 3 then d - 89 - l
      else if m = 4 then d - 119 - l
      else if m = 5 then d - 150 - l
      else if m = 6 then d - 180 - l
      else if m = 7 then d - 211 - l
      else if m = 8 then d - 242 - l
      else if m = 9 then d - 272 - l
      else if m = 10 then d - 303 - l
      else d - 333 - l)"

text \<open>
  \<open>MakeDay\<close>: the day number of the first of the month \<open>month\<close> of \<open>year\<close> (a month outside
  0 to 11 carries into the year), plus \<open>date - 1\<close>; the date may be zero or negative.
\<close>

definition MakeDay :: "int \<Rightarrow> int \<Rightarrow> int \<Rightarrow> int" where
  "MakeDay year month date =
     (let ym = year + month div 12; mn = month mod 12 in
      DayFromYear ym + daysBeforeMonth mn (if DaysInYear ym = 366 then 1 else 0) + date - 1)"

definition MakeDate :: "int \<Rightarrow> int \<Rightarrow> int" where
  "MakeDate day time = day * msPerDay + time"

definition getFullYear :: "Date \<Rightarrow> int" where
  "getFullYear d = YearFromTime (getTime d)"

definition getMonth :: "Date \<Rightarrow> int" where
  "getMonth d = MonthFromTime (getTime d)"

definition getDate :: "Date \<Rightarrow> int" where
  "getDate d = DateFromTime (getTime d)"

text \<open>
  \<open>new Date(year, month, date)\<close>: local midnight of that day.  A year from 0 to 99 stands
  for 1900 + year.
\<close>

definition new_Date :: "int \<Rightarrow> int \<Rightarrow> int \<Rightarrow> Date" where
  "new_Date year month date =
     (let yr = (if 0 \<le> year \<and> year \<le> 99 then 1900 + year else year) in
      Date (MakeDate (MakeDay yr month date) 0))"


section \<open>The form data and the two validators\<close>

text \<open>
  The record that \<open>collectFormData\<close> builds.  The one-tier program (\<open>app.js\<close>) has the
  first four fields, the two-tier program adds \<open>peakHours\<close>.  The fields have the types
  of the data model of the specification: the target date is a date or absent (\<open>null\<close>,
  here \<open>None\<close>), the plan length is an integer, the hours are numbers that may be NaN,
  and the selected days are a list of labels.
\<close>

record formData =
  targetDate :: "Date option"
  planLengthWeeks :: int
  avgHours :: number
  selectedDays :: "string list"

record formData2 = formData +
  peakHours :: number

text \<open>
  \<open>validateDataInput\<close> of \<open>app.js\<close>.  Every \<open>errors.push\<close> appends to the list, in the
  order of the statements.
\<close>

definition validateDataInput :: "formData \<Rightarrow> string list" where
  "validateDataInput data =
     (if targetDate data = None
      then [''Please select a target backyard ultra date.''] else [])
     @ (if planLengthWeeks data \<notin> set [8, 12, 16]
        then [''Please select a training plan length (8, 12, or 16 weeks).''] else [])
     @ (if isNaN (avgHours data) \<or> num_le (avgHours data) (Num 0)
        then [''Average weekly training hours must be a positive number.'']
        else if num_lt (avgHours data) (Num 6)
        then [''Average weekly training is lower than the minimum of 6 hrs.'']
        else [])
     @ (if length (selectedDays data) = 0
        then [''Select at least one training day.'']
        else if length (selectedDays data) < 3
        then [''Number of selected days is lower than the minimum of 3.'']
        else if ''Thu'' \<notin> set (selectedDays data) \<and> ''Sat'' \<notin> set (selectedDays data)
                \<and> ''Sun'' \<notin> set (selectedDays data)
        then [''Please include one between Tuesday, Saturday or Sunday as a training day to accommodate long runs.'']
        else [])
     @ (if length (selectedDays data) \<noteq> 0 \<and> \<not> isNaN (avgHours data)
        then (let perDayAvg = num_div (avgHours data) (Num (real (length (selectedDays data)))) in
              if num_lt perDayAvg (Num 1.5)
              then [''The desired average running time per running day should be at least 1.5. Consider adjusting days or hours.'']
              else if num_gt perDayAvg (Num 3.5)
              then [''The desired average running time per running day should be at less than 3.5. Consider adjusting days or hours.'']
              else [])
        else [])"

text \<open>
  \<open>validate\<close> of the two-tier program.  \<open>now\<close> is the value of \<open>new Date()\<close>, read once at
  the start of the call.
\<close>

definition validate :: "Date \<Rightarrow> formData2 \<Rightarrow> string list" where
  "validate now data =
     (case targetDate data of
        None \<Rightarrow> [''Please select a target backyard ultra date.'']
      | Some target \<Rightarrow>
          (let todayMidnight = new_Date (getFullYear now) (getMonth now) (getDate now);
               targetMidnight = new_Date (getFullYear target) (getMonth target) (getDate target)
           in if getTime targetMidnight \<le> getTime todayMidnight
              then [''Target date must be in the future.''] else []))
     @ (if planLengthWeeks data \<notin> set [8, 12, 16]
        then [''Please select a training plan length (8, 12, or 16 weeks).''] else [])
     @ (if isNaN (avgHours data) \<or> num_le (avgHours data) (Num 0)
        then [''Average weekly training hours must be a positive number.''] else [])
     @ (if isNaN (peakHours data) \<or> num_le (peakHours data) (Num 0)
        then [''Peak weekly training hours must be a positive number.''] else [])
     @ (if \<not> isNaN (avgHours data) \<and> \<not> isNaN (peakHours data)
           \<and> num_lt (peakHours data) (avgHours data)
        then [''Peak weekly hours should be greater than or equal to average weekly hours.'']
        else [])
     @ (if length (selectedDays data) = 0
        then [''Select at least one training day.''] else [])
     @ (if length (selectedDays data) \<noteq> 0 \<and> \<not> isNaN (avgHours data)
        then (let perDayAvg = num_div (avgHours data) (Num (real (length (selectedDays data)))) in
              if num_lt perDayAvg (Num 0.25)
              then [''Average hours per selected training day is very low (<0.25h). Consider adjusting days or hours.'']
              else [])
        else [])"

section \<open>The plan generators\<close>

record weekEntry =
  weekNumber :: int
  plannedHours :: number

record plan =
  startDate :: Date
  weeks :: "weekEntry list"




subsection \<open>The one-tier generator (\<open>app.js\<close>)\<close>




subsection \<open>The two-tier generator\<close>






section \<open>The validators' rules as the specification words them\<close>

text \<open>
  Section 4.1 of the specification lists the rules of the validators and section 6 the
  messages of the two-tier one.  The definitions of this section follow that wording, not
  the code, and the validators are compared with them below.
\<close>

definition spec_date_absent :: "'a formData_scheme \<Rightarrow> bool" where
  "spec_date_absent data = (targetDate data = None)"

definition spec_date_not_future :: "Date \<Rightarrow> 'a formData_scheme \<Rightarrow> bool" where
  "spec_date_not_future now data =
     (case targetDate data of
        None \<Rightarrow> False
      | Some target \<Rightarrow> \<not> Day (getTime now) < Day (getTime target))"

definition spec_length_invalid :: "'a formData_scheme \<Rightarrow> bool" where
  "spec_length_invalid data = (planLengthWeeks data \<notin> {8, 12, 16})"

definition spec_not_positive :: "number \<Rightarrow> bool" where
  "spec_not_positive x = (case x of NaN \<Rightarrow> True | Num v \<Rightarrow> v \<le> 0)"

definition spec_avg_below_floor :: "'a formData_scheme \<Rightarrow> bool" where
  "spec_avg_below_floor data = (case avgHours data of NaN \<Rightarrow> False | Num v \<Rightarrow> 0 < v \<and> v < 6)"

definition spec_peak_below_avg :: "formData2 \<Rightarrow> bool" where
  "spec_peak_below_avg data =
     (case avgHours data of
        NaN \<Rightarrow> False
      | Num a \<Rightarrow> (case peakHours data of NaN \<Rightarrow> False | Num b \<Rightarrow> b < a))"

definition spec_no_day :: "'a formData_scheme \<Rightarrow> bool" where
  "spec_no_day data = (selectedDays data = [])"

definition spec_few_days :: "'a formData_scheme \<Rightarrow> bool" where
  "spec_few_days data = (length (selectedDays data) < 3)"

definition spec_no_long_run_day :: "'a formData_scheme \<Rightarrow> bool" where
  "spec_no_long_run_day data =
     (selectedDays data \<noteq> [] \<and> set (selectedDays data) \<inter> {''Thu'', ''Sat'', ''Sun''} = {})"

definition spec_perDayAvg :: "'a formData_scheme \<Rightarrow> real option" where
  "spec_perDayAvg data =
     (if selectedDays data = [] then None
      else case avgHours data of
             NaN \<Rightarrow> None
           | Num v \<Rightarrow> Some (v / real (length (selectedDays data))))"

definition spec_intensity_low :: "formData2 \<Rightarrow> bool" where
  "spec_intensity_low data = (case spec_perDayAvg data of None \<Rightarrow> False | Some x \<Rightarrow> x < 0.25)"

definition spec_intensity_outside :: "formData \<Rightarrow> bool" where
  "spec_intensity_outside data =
     (case spec_perDayAvg data of None \<Rightarrow> False | Some x \<Rightarrow> x < 1.5 \<or> 3.5 < x)"

definition spec_fails2 :: "Date \<Rightarrow> formData2 \<Rightarrow> bool" where
  "spec_fails2 now data =
     (spec_date_absent data \<or> spec_date_not_future now data \<or> spec_length_invalid data
      \<or> spec_not_positive (avgHours data) \<or> spec_not_positive (peakHours data)
      \<or> spec_peak_below_avg data \<or> spec_no_day data \<or> spec_intensity_low data)"

definition spec_fails1 :: "formData \<Rightarrow> bool" where
  "spec_fails1 data =
     (spec_date_absent data \<or> spec_length_invalid data \<or> spec_not_positive (avgHours data)
      \<or> spec_avg_below_floor data \<or> spec_no_day data \<or> spec_few_days data
      \<or> spec_no_long_run_day data \<or> spec_intensity_outside data)"

text \<open>The rules of the two-tier validator in their order, each true when it fails.\<close>

definition spec_rules2 :: "Date \<Rightarrow> formData2 \<Rightarrow> bool list" where
  "spec_rules2 now data =
     [spec_date_absent data, spec_date_not_future now data, spec_length_invalid data,
      spec_not_positive (avgHours data), spec_not_positive (peakHours data),
      spec_peak_below_avg data, spec_no_day data, spec_intensity_low data]"

text \<open>The eight messages of the two-tier validator, in the order of its rules.\<close>

definition spec_messages :: "string list" where
  "spec_messages =
     [''Please select a target backyard ultra date.'',
      ''Target date must be in the future.'',
      ''Please select a training plan length (8, 12, or 16 weeks).'',
      ''Average weekly training hours must be a positive number.'',
      ''Peak weekly training hours must be a positive number.'',
      ''Peak weekly hours should be greater than or equal to average weekly hours.'',
      ''Select at least one training day.'',
      ''Average hours per selected training day is very low (<0.25h). Consider adjusting days or hours.'']"

section \<open>Example inputs\<close>

text \<open>
  \<open>ex_now\<close> is 3 November 2025, 09:30, and \<open>ex_midnight\<close> the start of that day.  The
  target of \<open>ex_scenarioA\<close> is 1 June 2025 and the target of the valid records is
  1 June 2026.
\<close>

definition ex_now :: Date where
  "ex_now = Date 1762162200000"

definition ex_midnight :: Date where
  "ex_midnight = Date 1762128000000"

definition ex_valid2 :: formData2 where
  "ex_valid2 = \<lparr>targetDate = Some (Date 1780272000000), planLengthWeeks = 8,
     avgHours = Num 10, selectedDays = [''Sat''], peakHours = Num 15\<rparr>"

definition ex_valid1 :: formData where
  "ex_valid1 = \<lparr>targetDate = Some (Date 1780272000000), planLengthWeeks = 12,
     avgHours = Num 9, selectedDays = [''Tue'', ''Thu'', ''Sat'']\<rparr>"

definition ex_scenarioA :: formData2 where
  "ex_scenarioA = \<lparr>targetDate = Some (Date 1748736000000), planLengthWeeks = 8,
     avgHours = Num 10, selectedDays = [''Sat''], peakHours = Num 15\<rparr>"



section \<open>Facts about the calendar\<close>

lemma DaysInYear_bounds: "365 \<le> DaysInYear y" "DaysInYear y \<le> 366"
  by (simp_all add: DaysInYear_def)

lemma DayFromYear_pred: "DayFromYear (y - 1) = DayFromYear y - DaysInYear (y - 1)"
  using DayFromYear_Suc [of "y - 1"] by simp

lemma DayFromYear_1970: "DayFromYear 1970 = 0"
  by (simp add: DayFromYear_def)

lemma DayFromYear_mono: "y \<le> y' \<Longrightarrow> DayFromYear y \<le> DayFromYear y'"
proof (induction y' rule: int_ge_induct)
  case base
  show ?case by simp
next
  case (step i)
  then show ?case using DayFromYear_step [of i] by simp
qed

lemma DayFromYear_upper: "0 \<le> k \<Longrightarrow> DayFromYear (1970 + k) \<le> 366 * k"
proof (induction k rule: int_ge_induct)
  case base
  show ?case by (simp add: DayFromYear_1970)
next
  case (step i)
  have "DayFromYear (1970 + (i + 1)) = DayFromYear (1970 + i) + DaysInYear (1970 + i)"
    using DayFromYear_Suc [of "1970 + i"] by (simp add: add.assoc)
  then show ?case using step DaysInYear_bounds(2) [of "1970 + i"] by simp
qed

lemma DayFromYear_lower: "k \<le> 0 \<Longrightarrow> DayFromYear (1970 + k) \<le> 365 * k"
proof (induction k rule: int_le_induct)
  case base
  show ?case by (simp add: DayFromYear_1970)
next
  case (step i)
  have "DayFromYear (1970 + (i - 1)) = DayFromYear (1970 + i) - DaysInYear (1970 + i - 1)"
    using DayFromYear_pred [of "1970 + i"] by (simp add: algebra_simps)
  then show ?case using step DaysInYear_bounds(1) [of "1970 + i - 1"] by simp
qed

lemma year_estimate:
  "DayFromYear (1970 + (if 0 \<le> d then d div 366 else d div 365)) \<le> d"
proof (cases "0 \<le> d")
  case True
  then have "0 \<le> d div 366" by simp
  from DayFromYear_upper [OF this] have "DayFromYear (1970 + d div 366) \<le> 366 * (d div 366)" .
  also have "\<dots> \<le> d" by (simp add: algebra_simps)
  finally show ?thesis using True by simp
next
  case False
  then have "d div 365 \<le> 0" using div_neg_pos_less0 [of d 365] by simp
  from DayFromYear_lower [OF this] have "DayFromYear (1970 + d div 365) \<le> 365 * (d div 365)" .
  also have "\<dots> \<le> d" by (simp add: algebra_simps)
  finally show ?thesis using False by simp
qed

lemma year_search_correct:
  "DayFromYear y \<le> d \<Longrightarrow>
     DayFromYear (year_search d y) \<le> d \<and> d < DayFromYear (year_search d y + 1)"
proof (induction d y rule: year_search.induct)
  case (1 d y)
  show ?case
  proof (cases "DayFromYear (y + 1) \<le> d")
    case True
    with "1.IH" show ?thesis by (subst (1 2) year_search.simps) simp
  next
    case False
    with "1.prems" show ?thesis by (subst (1 2) year_search.simps) simp
  qed
qed

lemma YearFromTime_correct:
  "DayFromYear (YearFromTime t) \<le> Day t" "Day t < DayFromYear (YearFromTime t + 1)"
  using year_search_correct [OF year_estimate [of "Day t"]]
  by (simp_all add: YearFromTime_def Let_def)

lemma YearFromTime_unique:
  assumes "DayFromYear y \<le> Day t" "Day t < DayFromYear (y + 1)"
  shows "YearFromTime t = y"
proof (rule ccontr)
  assume ne: "YearFromTime t \<noteq> y"
  show False
  proof (cases "YearFromTime t < y")
    case True
    then have "DayFromYear (YearFromTime t + 1) \<le> DayFromYear y"
      by (intro DayFromYear_mono) simp
    with assms(1) YearFromTime_correct(2) [of t] show False by simp
  next
    case False
    with ne have "DayFromYear (y + 1) \<le> DayFromYear (YearFromTime t)"
      by (intro DayFromYear_mono) simp
    with assms(2) YearFromTime_correct(1) [of t] show False by simp
  qed
qed

lemma DayWithinYear_range: "0 \<le> DayWithinYear t" "DayWithinYear t < DaysInYear (YearFromTime t)"
  using YearFromTime_correct [of t] DayFromYear_Suc [of "YearFromTime t"]
  by (simp_all add: DayWithinYear_def)

lemma MonthFromTime_range: "0 \<le> MonthFromTime t" "MonthFromTime t \<le> 11"
  by (simp_all add: MonthFromTime_def Let_def)

lemma month_date_sum:
  assumes "0 \<le> m" "m \<le> 11"
  shows "daysBeforeMonth m l +
     (if m = 0 then d + 1
      else if m = 1 then d - 30
      else if m = 2 then d - 58 - l
      else if m = 3 then d - 89 - l
      else if m = 4 then d - 119 - l
      else if m = 5 then d - 150 - l
      else if m = 6 then d - 180 - l
      else if m = 7 then d - 211 - l
      else if m = 8 then d - 242 - l
      else if m = 9 then d - 272 - l
      else if m = 10 then d - 303 - l
      else d - 333 - l) = d + 1"
proof -
  from assms have "m = 0 \<or> m = 1 \<or> m = 2 \<or> m = 3 \<or> m = 4 \<or> m = 5 \<or> m = 6 \<or> m = 7
      \<or> m = 8 \<or> m = 9 \<or> m = 10 \<or> m = 11"
    by arith
  then show ?thesis
    by (elim disjE) (simp_all add: daysBeforeMonth_def)
qed

lemma daysBeforeMonth_DateFromTime:
  "daysBeforeMonth (MonthFromTime t) (InLeapYear t) + DateFromTime t = DayWithinYear t + 1"
  unfolding DateFromTime_def Let_def
  by (rule month_date_sum) (rule MonthFromTime_range)+

lemma MakeDay_month: "0 \<le> m \<Longrightarrow> m \<le> 11 \<Longrightarrow>
  MakeDay y m dt = DayFromYear y + daysBeforeMonth m (if DaysInYear y = 366 then 1 else 0) + dt - 1"
  by (simp add: MakeDay_def Let_def)

text \<open>
  \<open>MakeDay year month 1\<close> is the day ECMAScript asks for: the day of the time value whose
  year is \<open>year\<close>, whose month is \<open>month\<close> and whose day of the month is 1.
\<close>

lemma MakeDay_first_of_month:
  assumes "0 \<le> m" "m \<le> 11" and t: "t = MakeDate (MakeDay y m 1) 0"
  shows "YearFromTime t = y \<and> MonthFromTime t = m \<and> DateFromTime t = 1"
proof -
  define l :: int where "l = (if DaysInYear y = 366 then 1 else 0)"
  have m: "m = 0 \<or> m = 1 \<or> m = 2 \<or> m = 3 \<or> m = 4 \<or> m = 5 \<or> m = 6 \<or> m = 7
      \<or> m = 8 \<or> m = 9 \<or> m = 10 \<or> m = 11"
    using assms(1,2) by arith
  have day: "Day t = DayFromYear y + daysBeforeMonth m l"
    unfolding t MakeDate_def Day_def MakeDay_month [OF assms(1,2)] l_def
    by (simp add: msPerDay_def)
  have b: "0 \<le> daysBeforeMonth m l" "daysBeforeMonth m l < DaysInYear y"
    using m by (auto simp: daysBeforeMonth_def l_def DaysInYear_def)
  have y: "YearFromTime t = y"
    by (rule YearFromTime_unique) (use day b DayFromYear_Suc [of y] in simp_all)
  have d: "DayWithinYear t = daysBeforeMonth m l" and ll: "InLeapYear t = l"
    by (simp_all add: DayWithinYear_def InLeapYear_def y day l_def)
  have l01: "l = 0 \<or> l = 1" by (simp add: l_def)
  have mo: "MonthFromTime t = m"
    unfolding MonthFromTime_def d ll Let_def
    using m l01 by (elim disjE) (simp_all add: daysBeforeMonth_def)
  have "DateFromTime t = 1"
    unfolding DateFromTime_def d ll mo Let_def
    using m by (elim disjE) (simp_all add: daysBeforeMonth_def)
  with y mo show ?thesis by simp
qed

lemma MakeDay_of_time:
  "MakeDay (YearFromTime t) (MonthFromTime t) (DateFromTime t + k) = Day t + k"
proof -
  have "MakeDay (YearFromTime t) (MonthFromTime t) (DateFromTime t + k) =
      DayFromYear (YearFromTime t) + daysBeforeMonth (MonthFromTime t) (InLeapYear t)
        + (DateFromTime t + k) - 1"
    by (simp only: MakeDay_month [OF MonthFromTime_range] InLeapYear_def)
  also have "\<dots> = DayFromYear (YearFromTime t) + (DayWithinYear t + 1) + k - 1"
    using daysBeforeMonth_DateFromTime [of t] by simp
  also have "\<dots> = Day t + k"
    by (simp add: DayWithinYear_def)
  finally show ?thesis .
qed



lemma Day_cong:
  assumes "Day t = Day t'"
  shows "YearFromTime t = YearFromTime t'" "MonthFromTime t = MonthFromTime t'"
    "DateFromTime t = DateFromTime t'"
proof -
  show y: "YearFromTime t = YearFromTime t'"
    using assms by (simp add: YearFromTime_def)
  have d: "DayWithinYear t = DayWithinYear t'" and l: "InLeapYear t = InLeapYear t'"
    using assms y by (simp_all add: DayWithinYear_def InLeapYear_def)
  show m: "MonthFromTime t = MonthFromTime t'"
    by (simp only: MonthFromTime_def d l)
  show "DateFromTime t = DateFromTime t'"
    by (simp only: DateFromTime_def d l m)
qed

lemma daysBeforeMonth_leap:
  "0 \<le> l \<Longrightarrow> l \<le> 1 \<Longrightarrow> 0 \<le> l' \<Longrightarrow> l' \<le> 1 \<Longrightarrow>
     daysBeforeMonth m l' + l \<le> daysBeforeMonth m l + 1"
  by (simp add: daysBeforeMonth_def)

lemma midnight_plain:
  assumes "\<not> (0 \<le> getFullYear d \<and> getFullYear d \<le> 99)"
  shows "getTime (new_Date (getFullYear d) (getMonth d) (getDate d)) = Day (getTime d) * msPerDay"
proof -
  have y: "(if 0 \<le> getFullYear d \<and> getFullYear d \<le> 99 then 1900 + getFullYear d
            else getFullYear d) = getFullYear d"
    using assms by simp
  show ?thesis
    unfolding new_Date_def Let_def y
    using MakeDay_of_time [of "getTime d" 0]
    by (simp add: getFullYear_def getMonth_def getDate_def MakeDate_def)
qed

lemma midnight_two_digit:
  assumes "0 \<le> getFullYear d" "getFullYear d \<le> 99"
  shows "getTime (new_Date (getFullYear d) (getMonth d) (getDate d)) \<le> DayFromYear 2000 * msPerDay"
proof -
  define t where "t = getTime d"
  define Y where "Y = YearFromTime t"
  define l where "l = InLeapYear t"
  define l' :: int where "l' = (if DaysInYear (1900 + Y) = 366 then 1 else 0)"
  have Y: "0 \<le> Y" "Y \<le> 99" using assms by (simp_all add: Y_def t_def getFullYear_def)
  have dwy: "DayWithinYear t \<le> 364 + l"
    using DayWithinYear_range(2) [of t] by (simp add: l_def InLeapYear_def DaysInYear_def split: if_splits)
  have ll: "daysBeforeMonth (MonthFromTime t) l' + l \<le> daysBeforeMonth (MonthFromTime t) l + 1"
    by (rule daysBeforeMonth_leap) (simp_all add: l_def l'_def InLeapYear_def)
  have "MakeDay (1900 + Y) (MonthFromTime t) (DateFromTime t) =
      DayFromYear (1900 + Y) + daysBeforeMonth (MonthFromTime t) l' + DateFromTime t - 1"
    by (simp only: MakeDay_month [OF MonthFromTime_range] l'_def)
  also have "\<dots> \<le> DayFromYear (1900 + Y) + 365"
    using daysBeforeMonth_DateFromTime [of t] dwy ll by (simp add: l_def)
  also have "\<dots> \<le> DayFromYear (1900 + Y + 1)"
    by (rule DayFromYear_step)
  also have "\<dots> \<le> DayFromYear 2000"
    by (rule DayFromYear_mono) (use Y in simp)
  finally have "MakeDay (1900 + Y) (MonthFromTime t) (DateFromTime t) \<le> DayFromYear 2000" .
  then show ?thesis
    using Y by (simp add: new_Date_def getFullYear_def getMonth_def getDate_def MakeDate_def
        Let_def Y_def t_def msPerDay_def)
qed

lemma midnight_le_iff:
  assumes "2000 \<le> getFullYear now"
  shows "getTime (new_Date (getFullYear target) (getMonth target) (getDate target))
           \<le> getTime (new_Date (getFullYear now) (getMonth now) (getDate now))
         \<longleftrightarrow> Day (getTime target) \<le> Day (getTime now)"
proof -
  have n: "getTime (new_Date (getFullYear now) (getMonth now) (getDate now))
      = Day (getTime now) * msPerDay"
    by (rule midnight_plain) (use assms in simp)
  have now2000: "DayFromYear 2000 \<le> Day (getTime now)"
    using DayFromYear_mono [OF assms] YearFromTime_correct(1) [of "getTime now"]
    by (simp add: getFullYear_def)
  show ?thesis
  proof (cases "0 \<le> getFullYear target \<and> getFullYear target \<le> 99")
    case False
    show ?thesis
      unfolding n midnight_plain [OF False] by (simp add: msPerDay_def)
  next
    case True
    then have "getTime (new_Date (getFullYear target) (getMonth target) (getDate target))
        \<le> DayFromYear 2000 * msPerDay"
      using midnight_two_digit by simp
    also have "\<dots> \<le> Day (getTime now) * msPerDay"
      using now2000 by (simp add: msPerDay_def)
    finally have l: "getTime (new_Date (getFullYear target) (getMonth target) (getDate target))
        \<le> getTime (new_Date (getFullYear now) (getMonth now) (getDate now))"
      by (simp only: n)
    have "Day (getTime target) < DayFromYear (getFullYear target + 1)"
      using YearFromTime_correct(2) [of "getTime target"] by (simp add: getFullYear_def)
    also have "\<dots> \<le> DayFromYear 2000"
      by (rule DayFromYear_mono) (use True in simp)
    finally have "Day (getTime target) \<le> Day (getTime now)"
      using now2000 by simp
    with l show ?thesis by simp
  qed
qed

lemma midnight_cong:
  assumes "Day (getTime a) = Day (getTime b)"
  shows "new_Date (getFullYear a) (getMonth a) (getDate a)
       = new_Date (getFullYear b) (getMonth b) (getDate b)"
  using Day_cong [OF assms] by (simp add: getFullYear_def getMonth_def getDate_def)

section \<open>Facts about the generators\<close>































section \<open>Facts about the validators\<close>

lemma futurity_reported_iff:
  assumes "2000 \<le> getFullYear now" "targetDate data = Some target"
  shows "''Target date must be in the future.'' \<in> set (validate now data)
         \<longleftrightarrow> Day (getTime target) \<le> Day (getTime now)"
  using midnight_le_iff [OF assms(1), of target] assms(2)
  by (auto simp: validate_def Let_def)

lemma presence_reported_iff:
  "''Please select a target backyard ultra date.'' \<in> set (validate now data)
         \<longleftrightarrow> targetDate data = None"
  by (auto simp: validate_def Let_def split: option.splits)

lemma ex_now_year: "getFullYear ex_now = 2025"
  unfolding ex_now_def by code_simp

lemma ex_now_day: "Day (getTime ex_now) = 20395"
  by (simp add: ex_now_def Day_def msPerDay_def)

lemma distinct_spec_messages: "distinct spec_messages"
  by (simp add: spec_messages_def)

lemma validate_same_day:
  assumes "Day (getTime now) = Day (getTime now')"
  shows "validate now data = validate now' data"
  unfolding validate_def midnight_cong [OF assms] ..

lemma validate_empty_iff:
  assumes "2000 \<le> getFullYear now"
  shows "validate now data = [] \<longleftrightarrow> \<not> spec_fails2 now data"
proof (cases "targetDate data")
  case None
  then show ?thesis
    by (simp add: validate_def spec_fails2_def spec_date_absent_def)
next
  case (Some target)
  have f: "getTime (new_Date (getFullYear target) (getMonth target) (getDate target))
       \<le> getTime (new_Date (getFullYear now) (getMonth now) (getDate now))
     \<longleftrightarrow> spec_date_not_future now data"
    using midnight_le_iff [OF assms, of target] Some
    by (auto simp: spec_date_not_future_def)
  show ?thesis
  proof (cases "avgHours data")
    case NaN
    then show ?thesis
      by (simp add: validate_def spec_fails2_def spec_not_positive_def)
  next
    case a: (Num a)
    show ?thesis
    proof (cases "peakHours data")
      case NaN
      then show ?thesis
        by (simp add: validate_def spec_fails2_def spec_not_positive_def)
    next
      case b: (Num b)
      show ?thesis
        using Some a b
        by (simp add: validate_def Let_def f spec_fails2_def spec_date_absent_def
            spec_length_invalid_def spec_not_positive_def spec_peak_below_avg_def
            spec_no_day_def spec_intensity_low_def spec_perDayAvg_def)
    qed
  qed
qed

lemma validateDataInput_empty_iff:
  "validateDataInput data = [] \<longleftrightarrow> \<not> spec_fails1 data"
proof (cases "avgHours data")
  case NaN
  then show ?thesis
    by (simp add: validateDataInput_def spec_fails1_def spec_not_positive_def)
next
  case (Num a)
  then show ?thesis
    by (simp add: validateDataInput_def Let_def spec_fails1_def spec_date_absent_def
        spec_length_invalid_def spec_not_positive_def spec_avg_below_floor_def
        spec_no_day_def spec_few_days_def spec_no_long_run_day_def
        spec_intensity_outside_def spec_perDayAvg_def)
qed

lemma validate_by_rules:
  assumes "2000 \<le> getFullYear now"
  shows "validate now data = map snd (filter fst (zip (spec_rules2 now data) spec_messages))"
proof -
  have d: "(case targetDate data of
        None \<Rightarrow> [''Please select a target backyard ultra date.'']
      | Some target \<Rightarrow>
          (let todayMidnight = new_Date (getFullYear now) (getMonth now) (getDate now);
               targetMidnight = new_Date (getFullYear target) (getMonth target) (getDate target)
           in if getTime targetMidnight \<le> getTime todayMidnight
              then [''Target date must be in the future.''] else []))
     = (if spec_date_absent data then [''Please select a target backyard ultra date.''] else [])
       @ (if spec_date_not_future now data then [''Target date must be in the future.''] else [])"
    using midnight_le_iff [OF assms]
    by (auto simp: spec_date_absent_def spec_date_not_future_def Let_def split: option.splits)
  have a: "(isNaN (avgHours data) \<or> num_le (avgHours data) (Num 0)) = spec_not_positive (avgHours data)"
    by (cases "avgHours data") (simp_all add: spec_not_positive_def)
  have b: "(isNaN (peakHours data) \<or> num_le (peakHours data) (Num 0)) = spec_not_positive (peakHours data)"
    by (cases "peakHours data") (simp_all add: spec_not_positive_def)
  have c: "(\<not> isNaN (avgHours data) \<and> \<not> isNaN (peakHours data)
           \<and> num_lt (peakHours data) (avgHours data)) = spec_peak_below_avg data"
    by (cases "avgHours data"; cases "peakHours data") (simp_all add: spec_peak_below_avg_def)
  have e: "(length (selectedDays data) = 0) = spec_no_day data"
    by (simp add: spec_no_day_def)
  have f: "(if length (selectedDays data) \<noteq> 0 \<and> \<not> isNaN (avgHours data)
        then (let perDayAvg = num_div (avgHours data) (Num (real (length (selectedDays data)))) in
              if num_lt perDayAvg (Num 0.25)
              then [''Average hours per selected training day is very low (<0.25h). Consider adjusting days or hours.'']
              else [])
        else [])
     = (if spec_intensity_low data
        then [''Average hours per selected training day is very low (<0.25h). Consider adjusting days or hours.'']
        else [])"
    by (cases "avgHours data") (simp_all add: spec_intensity_low_def spec_perDayAvg_def)
  have l: "(planLengthWeeks data \<notin> set [8, 12, 16]) = spec_length_invalid data"
    by (simp add: spec_length_invalid_def)
  show ?thesis
    unfolding validate_def d f
    unfolding a b c e l
    by (simp add: spec_rules2_def spec_messages_def)
qed

lemma subseq_append2:
  "subseq xs xs' \<Longrightarrow> subseq ys ys' \<Longrightarrow> subseq (xs @ ys) (xs' @ ys')"
  by (rule list_emb_append_mono)

lemma subseq_if: "subseq (if c then [m] else []) [m]"
  by simp

lemma validate_subseq:
  "subseq (validate now data) spec_messages \<and> distinct spec_messages"
proof -
  have d: "subseq
     (case targetDate data of
        None \<Rightarrow> [''Please select a target backyard ultra date.'']
      | Some target \<Rightarrow>
          (let todayMidnight = new_Date (getFullYear now) (getMonth now) (getDate now);
               targetMidnight = new_Date (getFullYear target) (getMonth target) (getDate target)
           in if getTime targetMidnight \<le> getTime todayMidnight
              then [''Target date must be in the future.''] else []))
     [''Please select a target backyard ultra date.'', ''Target date must be in the future.'']"
    by (simp add: Let_def split: option.splits)
  have i: "subseq
     (if length (selectedDays data) \<noteq> 0 \<and> \<not> isNaN (avgHours data)
      then (let perDayAvg = num_div (avgHours data) (Num (real (length (selectedDays data)))) in
            if num_lt perDayAvg (Num 0.25)
            then [''Average hours per selected training day is very low (<0.25h). Consider adjusting days or hours.'']
            else [])
      else [])
     [''Average hours per selected training day is very low (<0.25h). Consider adjusting days or hours.'']"
    by (simp add: Let_def)
  have s: "spec_messages =
      [''Please select a target backyard ultra date.'', ''Target date must be in the future.'']
      @ [''Please select a training plan length (8, 12, or 16 weeks).'']
      @ [''Average weekly training hours must be a positive number.'']
      @ [''Peak weekly training hours must be a positive number.'']
      @ [''Peak weekly hours should be greater than or equal to average weekly hours.'']
      @ [''Select at least one training day.'']
      @ [''Average hours per selected training day is very low (<0.25h). Consider adjusting days or hours.'']"
    by (simp add: spec_messages_def)
  have "subseq (validate now data) spec_messages"
    unfolding validate_def s
    by (intro subseq_append2 subseq_if d i)
  with distinct_spec_messages show ?thesis by simp
qed

text \<open>Scenario B of the specification: five hours a week on Monday and Wednesday.\<close>

lemma scenarioB:
  "validateDataInput \<lparr>targetDate = Some (Date 1780272000000), planLengthWeeks = 8,
       avgHours = Num 5, selectedDays = [''Mon'', ''Wed'']\<rparr>
     = [''Average weekly training is lower than the minimum of 6 hrs.'',
        ''Number of selected days is lower than the minimum of 3.'']"
  by (simp add: validateDataInput_def)

section \<open>The claims about the validators\<close>




text \<open>
  C5.  With the clock in the year 2000 or later and a target date present, \<open>validate\<close>
  reports the futurity violation exactly when the calendar day of the target is not
  strictly after the calendar day of the clock; so a target of today is reported, and a
  past target gives the futurity violation and not the violation of a missing date.
  The bound on the clock is there because \<open>new Date(year, month, date)\<close> reads a year
  from 0 to 99 as 1900 + year.
\<close>

theorem validate_futurity:
  assumes "2000 \<le> getFullYear now" "targetDate data = Some target"
  shows "(''Target date must be in the future.'' \<in> set (validate now data)
           \<longleftrightarrow> \<not> Day (getTime now) < Day (getTime target))
       \<and> ''Please select a target backyard ultra date.'' \<notin> set (validate now data)"
  using futurity_reported_iff [OF assms] presence_reported_iff [of now data] assms(2)
  by auto

theorem validate_futurity_witness:
  "2000 \<le> getFullYear ex_now \<and> targetDate ex_scenarioA = Some (Date 1748736000000)
   \<and> Day (getTime (Date 1748736000000)) = 20240 \<and> Day (getTime ex_now) = 20395
   \<and> ''Target date must be in the future.'' \<in> set (validate ex_now ex_scenarioA)
   \<and> ''Please select a target backyard ultra date.'' \<notin> set (validate ex_now ex_scenarioA)"
proof -
  have y: "2000 \<le> getFullYear ex_now"
    by (simp add: ex_now_year)
  have t: "targetDate ex_scenarioA = Some (Date 1748736000000)"
    by (simp add: ex_scenarioA_def)
  have d: "Day (getTime (Date 1748736000000)) = 20240"
    by (simp add: Day_def msPerDay_def)
  from validate_futurity [OF y t] y t d ex_now_day show ?thesis
    by simp
qed

text \<open>
  C6.  The list that \<open>validate\<close> returns is a subsequence of the eight messages of
  section 6 of the specification, taken in the order of the rules, and the eight messages
  differ from one another: every rule contributes its own message at most once, and the
  messages come in the order of the rules.  With the clock in the year 2000 or later the
  list is exactly the messages of the rules that fail, rule by rule.
\<close>

theorem validate_messages_in_order:
  "subseq (validate now data) spec_messages \<and> distinct spec_messages
   \<and> (2000 \<le> getFullYear now \<longrightarrow>
        validate now data = map snd (filter fst (zip (spec_rules2 now data) spec_messages)))"
  using validate_subseq [of now data] validate_by_rules [of now data]
  by blast

theorem validate_messages_in_order_witness:
  "subseq (validate ex_now ex_scenarioA) spec_messages \<and> distinct spec_messages
   \<and> 2000 \<le> getFullYear ex_now
   \<and> validate ex_now ex_scenarioA
        = map snd (filter fst (zip (spec_rules2 ex_now ex_scenarioA) spec_messages))
   \<and> validate ex_now ex_scenarioA = [''Target date must be in the future.'']"
proof -
  have v: "validate ex_now ex_scenarioA = [''Target date must be in the future.'']"
    unfolding ex_now_def ex_scenarioA_def by code_simp
  have y: "2000 \<le> getFullYear ex_now"
    by (simp add: ex_now_year)
  from validate_messages_in_order [of ex_now ex_scenarioA] v y show ?thesis
    by blast
qed

text \<open>
  C8.  Both validators are functions of their input: \<open>validate\<close> depends on the clock only
  through its calendar day, so that two calls on the same day with the same record return
  the same list, and \<open>validateDataInput\<close> reads no clock.  Neither has a failing branch.
  The list is empty exactly when no rule of the specification fails (for \<open>validate\<close> with
  the clock in the year 2000 or later).
\<close>

theorem validators_deterministic:
  "(Day (getTime now) = Day (getTime now') \<longrightarrow> validate now data = validate now' data)
   \<and> (2000 \<le> getFullYear now \<longrightarrow> (validate now data = [] \<longleftrightarrow> \<not> spec_fails2 now data))
   \<and> (validateDataInput data1 = [] \<longleftrightarrow> \<not> spec_fails1 data1)"
  using validate_same_day [of now now' data] validate_empty_iff [of now data]
    validateDataInput_empty_iff [of data1]
  by blast

theorem validators_deterministic_witness:
  "Day (getTime ex_now) = Day (getTime ex_midnight) \<and> 2000 \<le> getFullYear ex_now
   \<and> validate ex_now ex_valid2 = validate ex_midnight ex_valid2
   \<and> validate ex_now ex_valid2 = [] \<and> \<not> spec_fails2 ex_now ex_valid2
   \<and> validateDataInput ex_valid1 = [] \<and> \<not> spec_fails1 ex_valid1"
proof -
  have d: "Day (getTime ex_now) = Day (getTime ex_midnight)"
    by (simp add: ex_now_def ex_midnight_def Day_def msPerDay_def)
  have y: "2000 \<le> getFullYear ex_now"
    by (simp add: ex_now_year)
  have v2: "\<not> spec_fails2 ex_now ex_valid2"
    by (simp add: spec_fails2_def spec_date_absent_def spec_date_not_future_def
        spec_length_invalid_def spec_not_positive_def spec_peak_below_avg_def
        spec_no_day_def spec_intensity_low_def spec_perDayAvg_def ex_valid2_def ex_now_def
        Day_def msPerDay_def)
  have v1: "\<not> spec_fails1 ex_valid1"
    by (simp add: spec_fails1_def spec_date_absent_def
        spec_length_invalid_def spec_not_positive_def spec_avg_below_floor_def
        spec_no_day_def spec_few_days_def spec_no_long_run_day_def
        spec_intensity_outside_def spec_perDayAvg_def ex_valid1_def)
  from validators_deterministic [of ex_now ex_midnight ex_valid2 ex_valid1] d y v2 v1
  show ?thesis by auto
qed

section \<open>The claims about the generators\<close>

text \<open>
  The finite hours of a record are written \<open>Num a\<close> and \<open>Num b\<close>; the formulas of the
  claims are then stated over the reals \<open>a\<close> and \<open>b\<close>.
\<close>

















end
